theory Spec2Isabelle
  imports Main
begin

section \<open>Shared types (shared/types/index.ts)\<close>

text \<open>
  The battle engine works on one mutable \<open>GameState\<close> object. The TypeScript interfaces
  become records, the enums become datatypes, optional properties become \<open>option\<close>
  values. A JavaScript \<open>number\<close> holds grid coordinates, hit points and counters here;
  all of them are whole numbers in this program and are modelled as \<open>int\<close>.
  A \<open>Date\<close> and a \<open>Date.now()\<close> timestamp are modelled as one \<open>int\<close> clock value.
\<close>

record Position =
  x :: int
  y :: int

datatype CombatType = MELEE | RANGED

datatype Team = PLAYER1 | PLAYER2

datatype EquipmentSlot = WEAPON | ARMOR | ACCESSORY1 | ACCESSORY2

record Equipment =
  id_e :: string
  name_e :: string
  slot :: EquipmentSlot
  damageBonus :: "int option"
  armorBonus :: "int option"
  hpBonus :: "int option"
  requiredLevel :: int

text \<open>
  \<open>movementPointsLeft\<close> of a character is declared optional (\<open>movementPointsLeft?: number\<close>);
  \<open>None\<close> stands for \<open>undefined\<close>. The \<open>equipment\<close> object is a dictionary from slot
  to item.
\<close>

record Character =
  id_c :: string
  name_c :: string
  level :: int
  experience :: int
  position :: Position
  maxHp :: int
  currentHp :: int
  baseDamage :: int
  baseArmor :: int
  combatType :: CombatType
  equipment :: "EquipmentSlot \<rightharpoonup> Equipment"
  unlockedSlots :: "EquipmentSlot list"
  team :: Team
  isAlive :: bool
  hasMoved :: bool
  hasAttacked :: bool
  movementPointsLeft :: "int option"

datatype Status = waiting | active | finished

text \<open>
  \<open>autoEndTurn\<close> is not declared in the interface; MovementSystem.executeMove assigns it
  and BattleManager reads it in a condition. A battle created by \<open>createBattle\<close> has no
  such property, which reads as \<open>undefined\<close> and is falsy: \<open>False\<close> here.
\<close>

record GameState =
  id_g :: string
  player1Id :: string
  player2Id :: string
  gridWidth :: int
  gridHeight :: int
  characters :: "Character list"
  currentTurn :: Team
  turnNumber :: int
  movementPointsLeft_g :: int
  status :: Status
  winner :: "Team option"
  turnStartTime :: "int option"
  turnTimeLimit :: int
  battleStartTime :: "int option"
  battleTimeLimit :: int
  createdAt :: int
  updatedAt :: int
  autoEndTurn :: bool

datatype BattleAction =
    MOVE string Position Position
  | ATTACK string string
  | END_TURN
  | EQUIP_ITEM string string
  | SURRENDER

record ActionResult =
  success :: bool
  error :: "string option"
  newState :: "GameState option"
  damage_r :: "int option"
  killedCharacterId :: "string option"

subsection \<open>GAME_CONSTANTS\<close>

text \<open>
  \<open>MOVEMENT_POINTS_PER_TURN\<close> is 5 in shared/types/index.ts (other revisions of the
  table carry 15 and 2); no theorem below depends on which. The compiled table is the
  only one that declares \<open>MAX_MOVE_DISTANCE_PER_ACTION\<close>, as 1.
\<close>

definition GRID_WIDTH :: int where "GRID_WIDTH = 8"
definition GRID_HEIGHT :: int where "GRID_HEIGHT = 10"
definition MOVEMENT_POINTS_PER_TURN :: int where "MOVEMENT_POINTS_PER_TURN = 5"
definition MAX_MOVE_DISTANCE_PER_ACTION :: int where "MAX_MOVE_DISTANCE_PER_ACTION = 1"
definition MELEE_ATTACK_RANGE :: int where "MELEE_ATTACK_RANGE = 1"
definition RANGED_ATTACK_RANGE :: int where "RANGED_ATTACK_RANGE = 4"

section \<open>GridSystem\<close>

text \<open>
  GridSystem.ts is imported by MovementSystem, CombatSystem and BattleManager, but its
  source is not available. The three functions the checks below depend on are modelled
  from section 4.1 of the specification. It is constructed without arguments, so the
  grid is the one of \<open>GAME_CONSTANTS\<close>.
\<close>

text \<open>
  Modelled from the spec: \<open>GridSystem.isValidPosition\<close> (source missing), "true iff
  0 \<le> x < width and 0 \<le> y < height".
\<close>

definition isValidPosition :: "Position \<Rightarrow> bool" where
  "isValidPosition p \<longleftrightarrow> 0 \<le> x p \<and> x p < GRID_WIDTH \<and> 0 \<le> y p \<and> y p < GRID_HEIGHT"

text \<open>
  Modelled from the spec: \<open>GridSystem.positionsEqual\<close> (source missing); "equality is
  value equality" of the two coordinates.
\<close>

definition positionsEqual :: "Position \<Rightarrow> Position \<Rightarrow> bool" where
  "positionsEqual a b \<longleftrightarrow> x a = x b \<and> y a = y b"

text \<open>
  Modelled from the spec: \<open>GridSystem.calculateDistance\<close> (source missing), the "grid
  (Manhattan) distance, used both as A* heuristic and as range check".
\<close>

definition calculateDistance :: "Position \<Rightarrow> Position \<Rightarrow> int" where
  "calculateDistance a b = \<bar>x a - x b\<bar> + \<bar>y a - y b\<bar>"

text \<open>
  \<open>GridSystem.hasLineOfSight\<close> is missing as well and the specification does not say
  which cells lie on "the straight path" between two cells; \<open>canAttack\<close> and its callers
  take the function as a parameter, so every theorem about them holds for any
  line-of-sight rule.
\<close>

type_synonym LineOfSight = "Position \<Rightarrow> Position \<Rightarrow> Position list \<Rightarrow> bool"

section \<open>Object references\<close>

text \<open>
  \<open>gameState.characters.find(c => c.id === id)\<close> yields a reference to the first
  character object with that id, and the handlers mutate the object through it. A
  reference is modelled as the index of the object in \<open>characters\<close>; \<open>None\<close> is
  \<open>undefined\<close>.
\<close>

fun findIndex :: "('a \<Rightarrow> bool) \<Rightarrow> 'a list \<Rightarrow> nat option" where
  "findIndex P [] = None"
| "findIndex P (a # as) = (if P a then Some 0 else map_option Suc (findIndex P as))"

definition findCharacter :: "string \<Rightarrow> GameState \<Rightarrow> nat option" where
  "findCharacter cid gs = findIndex (\<lambda>c. id_c c = cid) (characters gs)"

record Validity =
  valid :: bool
  error_v :: "string option"

definition ok :: Validity where
  "ok = \<lparr>valid = True, error_v = None\<rparr>"

definition invalid :: "string \<Rightarrow> Validity" where
  "invalid msg = \<lparr>valid = False, error_v = Some msg\<rparr>"

section \<open>TurnManager (second revision in TurnManager.ts)\<close>

text \<open>
  TurnManager.ts holds two revisions. The first resets \<open>hasMoved\<close> and \<open>hasAttacked\<close>
  only; the second, modelled here, is the one written for per-character movement
  points, which MovementSystem.ts and BattleManager.ts use. \<open>endTurn\<close>, \<open>canAct\<close> and
  \<open>getPlayerTeam\<close> are the same in both.
\<close>

definition startTurn :: "int \<Rightarrow> GameState \<Rightarrow> GameState" where
  "startTurn now gs =
     (let currentTeam = currentTurn gs in
      gs\<lparr>characters :=
            map (\<lambda>c. if team c = currentTeam \<and> isAlive c
                      then c\<lparr>hasAttacked := False,
                              movementPointsLeft := Some MOVEMENT_POINTS_PER_TURN\<rparr>
                      else c) (characters gs),
          movementPointsLeft_g := MOVEMENT_POINTS_PER_TURN,
          turnStartTime := Some now\<rparr>)"

definition endTurn :: "int \<Rightarrow> GameState \<Rightarrow> GameState" where
  "endTurn now gs =
     (let gs1 = gs\<lparr>currentTurn := (if currentTurn gs = PLAYER1 then PLAYER2 else PLAYER1)\<rparr>;
          gs2 = (if currentTurn gs1 = PLAYER1 then gs1\<lparr>turnNumber := turnNumber gs1 + 1\<rparr>
                 else gs1)
      in startTurn now gs2)"

definition getPlayerTeam :: "string \<Rightarrow> GameState \<Rightarrow> Team option" where
  "getPlayerTeam playerId gs =
     (if playerId = player1Id gs then Some PLAYER1
      else if playerId = player2Id gs then Some PLAYER2
      else None)"

definition canAct :: "string \<Rightarrow> GameState \<Rightarrow> bool" where
  "canAct playerId gs \<longleftrightarrow> getPlayerTeam playerId gs = Some (currentTurn gs)"

definition hasActionsLeft :: "GameState \<Rightarrow> bool" where
  "hasActionsLeft gs =
     (let currentTeam = currentTurn gs;
          teamCharacters = filter (\<lambda>c. team c = currentTeam \<and> isAlive c) (characters gs)
      in if list_ex (\<lambda>c. (case movementPointsLeft c of None \<Rightarrow> 0 | Some m \<Rightarrow> m) > 0)
              teamCharacters then True
         else if list_ex (\<lambda>c. \<not> hasAttacked c) teamCharacters then True
         else False)"

definition autoEndTurnIfNeeded :: "int \<Rightarrow> GameState \<Rightarrow> GameState" where
  "autoEndTurnIfNeeded now gs = (if \<not> hasActionsLeft gs then endTurn now gs else gs)"

section \<open>CombatSystem\<close>

text \<open>\<open>canAttack\<close> only reads its arguments, so it takes the two characters by value.\<close>

definition canAttack :: "LineOfSight \<Rightarrow> Character \<Rightarrow> Character \<Rightarrow> GameState \<Rightarrow> Validity" where
  "canAttack hasLineOfSight attacker target gs =
     (if hasAttacked attacker then invalid ''Character has already attacked this turn''
      else if \<not> isAlive target then invalid ''Target is not alive''
      else if team attacker = team target then invalid ''Cannot attack ally''
      else
        let distance = calculateDistance (position attacker) (position target) in
        (case combatType attacker of
           MELEE \<Rightarrow>
             if distance > MELEE_ATTACK_RANGE then invalid ''Target is out of melee range''
             else ok
         | RANGED \<Rightarrow>
             if distance > RANGED_ATTACK_RANGE
             then invalid ''Target is out of ranged attack range''
             else
               let occupiedCells =
                     map position
                       (filter (\<lambda>c. isAlive c \<and> id_c c \<noteq> id_c attacker \<and> id_c c \<noteq> id_c target)
                          (characters gs))
               in if \<not> hasLineOfSight (position attacker) (position target) occupiedCells
                  then invalid ''No line of sight to target''
                  else ok))"

text \<open>
  \<open>v || 0\<close> and \<open>v ?? 0\<close> on an optional number: \<open>undefined\<close> gives 0, a number
  gives itself.
\<close>

definition orZero :: "int option \<Rightarrow> int" where
  "orZero v = (case v of None \<Rightarrow> 0 | Some n \<Rightarrow> n)"

definition calculateDamage :: "Character \<Rightarrow> Character \<Rightarrow> int" where
  "calculateDamage attacker target =
     (let totalDamage =
            (case equipment attacker WEAPON of
               Some w \<Rightarrow> baseDamage attacker + orZero (damageBonus w)
             | None \<Rightarrow> baseDamage attacker);
          totalArmor =
            (case equipment target ARMOR of
               Some a \<Rightarrow> baseArmor target + orZero (armorBonus a)
             | None \<Rightarrow> baseArmor target)
      in max 1 (totalDamage - totalArmor))"

record AttackOutcome =
  damage :: int
  killed :: bool

text \<open>
  \<open>executeAttack\<close> writes to the target object and then to the attacker object; \<open>ai\<close>
  and \<open>ti\<close> are their references, which may be the same object.
\<close>

definition executeAttack :: "nat \<Rightarrow> nat \<Rightarrow> GameState \<Rightarrow> AttackOutcome \<times> GameState" where
  "executeAttack ai ti gs =
     (let cs = characters gs;
          dmg = calculateDamage (cs ! ai) (cs ! ti);
          t1 = (cs ! ti)\<lparr>currentHp := max 0 (currentHp (cs ! ti) - dmg)\<rparr>;
          t2 = (if currentHp t1 = 0 then t1\<lparr>isAlive := False\<rparr> else t1);
          cs1 = cs[ti := t2];
          cs2 = cs1[ai := (cs1 ! ai)\<lparr>hasAttacked := True\<rparr>]
      in (\<lparr>damage = dmg, killed = \<not> isAlive (cs2 ! ti)\<rparr>, gs\<lparr>characters := cs2\<rparr>))"

record BattleEnd =
  ended :: bool
  winner_b :: "string option"

definition checkBattleEnd :: "GameState \<Rightarrow> BattleEnd" where
  "checkBattleEnd gs =
     (let player1Alive = length (filter (\<lambda>c. team c = PLAYER1 \<and> isAlive c) (characters gs));
          player2Alive = length (filter (\<lambda>c. team c = PLAYER2 \<and> isAlive c) (characters gs))
      in if player1Alive = 0 then \<lparr>ended = True, winner_b = Some (player2Id gs)\<rparr>
         else if player2Alive = 0 then \<lparr>ended = True, winner_b = Some (player1Id gs)\<rparr>
         else \<lparr>ended = False, winner_b = None\<rparr>)"

section \<open>MovementSystem (MovementSystem.ts)\<close>

text \<open>
  \<open>canMove\<close> assigns the full budget to a character whose \<open>movementPointsLeft\<close> is
  undefined before it reads it, so it returns the state as well. \<open>ci\<close> is the reference
  to the moving character.
\<close>

definition occupiedByOther :: "Character \<Rightarrow> Position \<Rightarrow> GameState \<Rightarrow> bool" where
  "occupiedByOther character to gs =
     list_ex (\<lambda>c. isAlive c \<and> id_c c \<noteq> id_c character \<and> positionsEqual (position c) to)
       (characters gs)"

definition initMovement :: "nat \<Rightarrow> GameState \<Rightarrow> GameState" where
  "initMovement ci gs =
     (if movementPointsLeft (characters gs ! ci) = None
      then gs\<lparr>characters :=
                (characters gs)[ci := (characters gs ! ci)
                                  \<lparr>movementPointsLeft := Some MOVEMENT_POINTS_PER_TURN\<rparr>]\<rparr>
      else gs)"

definition canMove :: "nat \<Rightarrow> Position \<Rightarrow> GameState \<Rightarrow> Validity \<times> GameState" where
  "canMove ci to gs =
     (let character = characters gs ! ci in
      if team character \<noteq> currentTurn gs then (invalid ''Not this character's turn'', gs)
      else if \<not> isValidPosition to then (invalid ''Invalid position'', gs)
      else if positionsEqual (position character) to
        then (invalid ''Already at this position'', gs)
      else if occupiedByOther character to gs
        then (invalid ''Cell is occupied by another character'', gs)
      else if calculateDistance (position character) to > MAX_MOVE_DISTANCE_PER_ACTION
        then (invalid ''Can only move 1 cell at a time'', gs)
      else
        let gs1 = initMovement ci gs;
            characterMovement = the (movementPointsLeft (characters gs1 ! ci))
        in if characterMovement \<le> 0 then (invalid ''No movement points left'', gs1)
           else (ok, gs1))"

definition executeMove :: "nat \<Rightarrow> Position \<Rightarrow> GameState \<Rightarrow> GameState" where
  "executeMove ci to gs =
     (let gs1 = gs\<lparr>characters := (characters gs)[ci := (characters gs ! ci)\<lparr>position := to\<rparr>]\<rparr>;
          gs2 = initMovement ci gs1;
          c2 = characters gs2 ! ci;
          gs3 = gs2\<lparr>characters :=
                      (characters gs2)[ci := c2\<lparr>movementPointsLeft :=
                                                  Some (the (movementPointsLeft c2) - 1)\<rparr>]\<rparr>;
          gs4 = gs3\<lparr>movementPointsLeft_g := movementPointsLeft_g gs3 - 1\<rparr>;
          allCharactersUsedMovement =
            list_all (\<lambda>c. orZero (movementPointsLeft c) \<le> 0)
              (filter (\<lambda>c. team c = currentTurn gs4 \<and> isAlive c) (characters gs4))
      in if allCharactersUsedMovement \<or> movementPointsLeft_g gs4 \<le> 0
         then gs4\<lparr>autoEndTurn := True\<rparr>
         else gs4)"

section \<open>BattleManager\<close>

text \<open>
  Every handler returns the result object together with the battle record as it stands
  after the call, since a rejected action may still have written to it. \<open>now\<close> is the
  clock value read during the call.
\<close>

definition failure :: "string option \<Rightarrow> ActionResult" where
  "failure msg = \<lparr>success = False, error = msg, newState = None, damage_r = None,
                   killedCharacterId = None\<rparr>"

definition successState :: "GameState \<Rightarrow> ActionResult" where
  "successState gs = \<lparr>success = True, error = None, newState = Some gs, damage_r = None,
                       killedCharacterId = None\<rparr>"

definition handleEndTurn :: "int \<Rightarrow> GameState \<Rightarrow> ActionResult \<times> GameState" where
  "handleEndTurn now gs =
     (let gs1 = endTurn now gs;
          gs2 = gs1\<lparr>updatedAt := now\<rparr>
      in (successState gs2, gs2))"

definition handleMove :: "string \<Rightarrow> Position \<Rightarrow> int \<Rightarrow> GameState \<Rightarrow> ActionResult \<times> GameState" where
  "handleMove characterId to now gs =
     (case findCharacter characterId gs of
        None \<Rightarrow> (failure (Some ''Character not found''), gs)
      | Some ci \<Rightarrow>
          (case canMove ci to gs of (cm, gs1) \<Rightarrow>
             if \<not> valid cm then (failure (error_v cm), gs1)
             else
               let gs2 = executeMove ci to gs1;
                   gs3 = gs2\<lparr>updatedAt := now\<rparr>
               in if autoEndTurn gs3
                  then (case handleEndTurn now gs3 of (endTurnResult, gs4) \<Rightarrow>
                          if success endTurnResult \<and> newState endTurnResult \<noteq> None
                          then (endTurnResult, gs4)
                          else (successState gs4, gs4))
                  else (successState gs3, gs3)))"

definition handleAttack ::
  "LineOfSight \<Rightarrow> string \<Rightarrow> string \<Rightarrow> int \<Rightarrow> GameState \<Rightarrow> ActionResult \<times> GameState" where
  "handleAttack hasLineOfSight attackerId targetId now gs =
     (case (findCharacter attackerId gs, findCharacter targetId gs) of
        (Some ai, Some ti) \<Rightarrow>
          let ca = canAttack hasLineOfSight (characters gs ! ai) (characters gs ! ti) gs in
          if \<not> valid ca then (failure (error_v ca), gs)
          else
            (case executeAttack ai ti gs of (result, gs1) \<Rightarrow>
               let gs2 = gs1\<lparr>updatedAt := now\<rparr>;
                   battleEnd = checkBattleEnd gs2;
                   gs3 = (if ended battleEnd
                          then gs2\<lparr>status := finished,
                                   winner := Some (if winner_b battleEnd = Some (player1Id gs2)
                                                   then PLAYER1 else PLAYER2)\<rparr>
                          else gs2);
                   killedId = (if killed result then Some (id_c (characters gs3 ! ti)) else None)
               in if autoEndTurn gs3 \<and> \<not> ended battleEnd
                  then (case handleEndTurn now gs3 of (endTurnResult, gs4) \<Rightarrow>
                          if success endTurnResult \<and> newState endTurnResult \<noteq> None
                          then (\<lparr>success = True, error = None,
                                  newState = newState endTurnResult,
                                  damage_r = Some (damage result),
                                  killedCharacterId = killedId\<rparr>, gs4)
                          else (\<lparr>success = True, error = None, newState = Some gs4,
                                  damage_r = Some (damage result),
                                  killedCharacterId = killedId\<rparr>, gs4))
                  else (\<lparr>success = True, error = None, newState = Some gs3,
                          damage_r = Some (damage result),
                          killedCharacterId = killedId\<rparr>, gs3))
      | _ \<Rightarrow> (failure (Some ''Character not found''), gs))"

definition handleSurrender :: "string \<Rightarrow> int \<Rightarrow> GameState \<Rightarrow> ActionResult \<times> GameState" where
  "handleSurrender playerId now gs =
     (let loser = (if playerId = player1Id gs then PLAYER1 else PLAYER2);
          winnerTeam = (if loser = PLAYER1 then PLAYER2 else PLAYER1);
          gs1 = gs\<lparr>status := finished, winner := Some winnerTeam, updatedAt := now\<rparr>
      in (successState gs1, gs1))"

text \<open>
  With well-typed arguments no handler throws, so the \<open>catch\<close> branch of \<open>processAction\<close>
  has no counterpart here. \<open>EQUIP_ITEM\<close> falls to the \<open>default\<close> case of the switch.
\<close>

definition processAction ::
  "LineOfSight \<Rightarrow> BattleAction \<Rightarrow> string \<Rightarrow> int \<Rightarrow> GameState \<Rightarrow> ActionResult \<times> GameState" where
  "processAction hasLineOfSight action playerId now gs =
     (if \<not> canAct playerId gs then (failure (Some ''Not your turn''), gs)
      else
        (case action of
           MOVE characterId from to \<Rightarrow> handleMove characterId to now gs
         | ATTACK attackerId targetId \<Rightarrow> handleAttack hasLineOfSight attackerId targetId now gs
         | END_TURN \<Rightarrow> handleEndTurn now gs
         | SURRENDER \<Rightarrow> handleSurrender playerId now gs
         | EQUIP_ITEM characterId equipmentId \<Rightarrow> (failure (Some ''Unknown action type''), gs)))"

section \<open>TimerManager\<close>

text \<open>\<open>reduce((sum, c) => sum + c.currentHp, 0)\<close> is a left fold from 0.\<close>

definition determineWinnerByTime :: "GameState \<Rightarrow> Team" where
  "determineWinnerByTime gs =
     (let player1Characters = filter (\<lambda>c. team c = PLAYER1 \<and> isAlive c) (characters gs);
          player2Characters = filter (\<lambda>c. team c = PLAYER2 \<and> isAlive c) (characters gs)
      in if length player1Characters > length player2Characters then PLAYER1
         else if length player2Characters > length player1Characters then PLAYER2
         else
           let player1Health = foldl (\<lambda>sum c. sum + currentHp c) 0 player1Characters;
               player2Health = foldl (\<lambda>sum c. sum + currentHp c) 0 player2Characters
           in if player1Health > player2Health then PLAYER1
              else if player2Health > player1Health then PLAYER2
              else PLAYER1)"

section \<open>Notions of the specification\<close>

text \<open>
  The specification speaks of the living characters of a team, of their number and of
  their summed health, and of a traversable path on the grid. These are stated here
  independently of the code, for the theorems to compare the code with.
\<close>

definition living :: "Team \<Rightarrow> GameState \<Rightarrow> Character list" where
  "living t gs = filter (\<lambda>c. team c = t \<and> isAlive c) (characters gs)"

definition hasLiving :: "Team \<Rightarrow> GameState \<Rightarrow> bool" where
  "hasLiving t gs \<longleftrightarrow> (\<exists>c \<in> set (characters gs). team c = t \<and> isAlive c)"

definition livingCount :: "Team \<Rightarrow> GameState \<Rightarrow> nat" where
  "livingCount t gs = length (living t gs)"

definition livingHp :: "Team \<Rightarrow> GameState \<Rightarrow> int" where
  "livingHp t gs = sum_list (map currentHp (living t gs))"

definition otherTeam :: "Team \<Rightarrow> Team" where
  "otherTeam t = (case t of PLAYER1 \<Rightarrow> PLAYER2 | PLAYER2 \<Rightarrow> PLAYER1)"

text \<open>The weapon and armour bonuses of the damage formula in section 4.3.\<close>

definition weaponBonus :: "Character \<Rightarrow> int" where
  "weaponBonus c =
     (case equipment c WEAPON of None \<Rightarrow> 0
      | Some w \<Rightarrow> (case damageBonus w of None \<Rightarrow> 0 | Some b \<Rightarrow> b))"

definition armorBonusOf :: "Character \<Rightarrow> int" where
  "armorBonusOf c =
     (case equipment c ARMOR of None \<Rightarrow> 0
      | Some a \<Rightarrow> (case armorBonus a of None \<Rightarrow> 0 | Some b \<Rightarrow> b))"

text \<open>
  A traversable path for a character, as in check (5) of section 4.2: a list of cells
  that starts at the character's position, proceeds by orthogonal unit steps, and after
  the start visits only valid cells that no other living character occupies. Its length
  in steps is the number of cells minus one.
\<close>

fun unitSteps :: "Position list \<Rightarrow> bool" where
  "unitSteps [] = True"
| "unitSteps [a] = True"
| "unitSteps (a # b # rest) = (calculateDistance a b = 1 \<and> unitSteps (b # rest))"

definition traversablePath :: "Character \<Rightarrow> Position \<Rightarrow> GameState \<Rightarrow> Position list \<Rightarrow> bool" where
  "traversablePath character to gs path \<longleftrightarrow>
     path \<noteq> [] \<and> hd path = position character \<and> last path = to \<and> unitSteps path \<and>
     list_all (\<lambda>p. isValidPosition p \<and> \<not> occupiedByOther character p gs) (tl path)"

definition steps :: "Position list \<Rightarrow> int" where
  "steps path = int (length path) - 1"

text \<open>The movement points \<open>canMove\<close> reads: an undefined budget is first set to the full one.\<close>

definition movementBudget :: "Character \<Rightarrow> int" where
  "movementBudget c =
     (case movementPointsLeft c of None \<Rightarrow> MOVEMENT_POINTS_PER_TURN | Some m \<Rightarrow> m)"

section \<open>Sample battles\<close>

text \<open>
  The warrior that \<open>createDefaultCharacters\<close> pushes first, with the generated id, the
  team and the starting cell as parameters.
\<close>

definition defaultWarrior :: "string \<Rightarrow> Team \<Rightarrow> Position \<Rightarrow> Character" where
  "defaultWarrior cid tm pos =
     \<lparr>id_c = cid, name_c = (if tm = PLAYER1 then ''Warrior P1'' else ''Warrior P2''),
      level = 1, experience = 0, position = pos, maxHp = 100, currentHp = 100,
      baseDamage = 20, baseArmor = 5, combatType = MELEE, equipment = Map.empty,
      unlockedSlots = [WEAPON, ARMOR], team = tm, isAlive = True, hasMoved = False,
      hasAttacked = False, movementPointsLeft = Some MOVEMENT_POINTS_PER_TURN\<rparr>"

text \<open>
  A battle as \<open>createBattle\<close> sets it up (first turn, PLAYER1 to act, clock 0), with a
  given list of characters.
\<close>

definition battleWith :: "Character list \<Rightarrow> GameState" where
  "battleWith cs =
     \<lparr>id_g = ''b1'', player1Id = ''alice'', player2Id = ''bob'',
      gridWidth = GRID_WIDTH, gridHeight = GRID_HEIGHT, characters = cs,
      currentTurn = PLAYER1, turnNumber = 1,
      movementPointsLeft_g = MOVEMENT_POINTS_PER_TURN, status = active, winner = None,
      turnStartTime = Some 0, turnTimeLimit = 30, battleStartTime = Some 0,
      battleTimeLimit = 600, createdAt = 0, updatedAt = 0, autoEndTurn = False\<rparr>"

text \<open>Two warriors on neighbouring cells, one per team.\<close>

definition duel :: GameState where
  "duel = battleWith [defaultWarrior ''w1'' PLAYER1 \<lparr>x = 3, y = 4\<rparr>,
                      defaultWarrior ''w2'' PLAYER2 \<lparr>x = 2, y = 4\<rparr>]"

text \<open>The same battle after the PLAYER1 warrior has been killed.\<close>

definition duelAfterKill :: GameState where
  "duelAfterKill =
     battleWith [(defaultWarrior ''w1'' PLAYER1 \<lparr>x = 3, y = 4\<rparr>)\<lparr>currentHp := 0, isAlive := False\<rparr>,
                 defaultWarrior ''w2'' PLAYER2 \<lparr>x = 2, y = 4\<rparr>]"

text \<open>A battle in which the last character of each team is dead.\<close>

definition bothFallen :: GameState where
  "bothFallen =
     battleWith [(defaultWarrior ''w1'' PLAYER1 \<lparr>x = 3, y = 4\<rparr>)\<lparr>currentHp := 0, isAlive := False\<rparr>,
                 (defaultWarrior ''w2'' PLAYER2 \<lparr>x = 2, y = 4\<rparr>)\<lparr>currentHp := 0, isAlive := False\<rparr>]"

text \<open>A lone PLAYER1 warrior in the corner of an otherwise empty grid.\<close>

definition solo :: GameState where
  "solo = battleWith [defaultWarrior ''w1'' PLAYER1 \<lparr>x = 0, y = 0\<rparr>]"

text \<open>
  PLAYER2 to act; the first PLAYER1 warrior is down to 15 hit points and stands next to
  the PLAYER2 warrior, a second PLAYER1 warrior stands apart.
\<close>

definition skirmish :: GameState where
  "skirmish =
     (battleWith [(defaultWarrior ''w1'' PLAYER1 \<lparr>x = 3, y = 4\<rparr>)\<lparr>currentHp := 15\<rparr>,
                  defaultWarrior ''w3'' PLAYER1 \<lparr>x = 5, y = 5\<rparr>,
                  defaultWarrior ''w2'' PLAYER2 \<lparr>x = 2, y = 4\<rparr>])\<lparr>currentTurn := PLAYER2\<rparr>"

text \<open>Two warriors on neighbouring cells; the PLAYER1 warrior is wounded.\<close>

definition woundedDuel :: GameState where
  "woundedDuel =
     battleWith [(defaultWarrior ''w1'' PLAYER1 \<lparr>x = 3, y = 4\<rparr>)\<lparr>currentHp := 15\<rparr>,
                 defaultWarrior ''w2'' PLAYER2 \<lparr>x = 2, y = 4\<rparr>]"

text \<open>A line-of-sight function for boards on which nothing obstructs.\<close>

definition openField :: LineOfSight where
  "openField from to obstacles = True"

text \<open>
  The skirmish played on: bob's warrior strikes the wounded \<open>w1\<close>, then bob ends his
  turn.
\<close>

definition skirmishAfterKill :: GameState where
  "skirmishAfterKill = snd (processAction openField (ATTACK ''w2'' ''w1'') ''bob'' 1 skirmish)"

definition skirmishNextTurn :: GameState where
  "skirmishNextTurn = snd (processAction openField END_TURN ''bob'' 2 skirmishAfterKill)"

text \<open>
  The duel with one team movement point left, and the battle after alice has spent it
  on a step of her warrior.
\<close>

definition lastPoint :: GameState where
  "lastPoint = duel\<lparr>movementPointsLeft_g := 1\<rparr>"

definition lastPointSpent :: GameState where
  "lastPointSpent =
     snd (processAction openField (MOVE ''w1'' \<lparr>x = 3, y = 4\<rparr> \<lparr>x = 3, y = 5\<rparr>) ''alice'' 1 lastPoint)"

section \<open>Unfolding the model on concrete battles\<close>

lemmas sample_defs = duel_def duelAfterKill_def bothFallen_def solo_def skirmish_def
  woundedDuel_def lastPoint_def battleWith_def defaultWarrior_def openField_def

lemmas constant_defs = GRID_WIDTH_def GRID_HEIGHT_def MOVEMENT_POINTS_PER_TURN_def
  MAX_MOVE_DISTANCE_PER_ACTION_def MELEE_ATTACK_RANGE_def RANGED_ATTACK_RANGE_def

lemmas engine_defs = processAction_def canAct_def getPlayerTeam_def handleMove_def
  handleAttack_def handleEndTurn_def handleSurrender_def findCharacter_def canMove_def
  executeMove_def initMovement_def occupiedByOther_def canAttack_def executeAttack_def
  calculateDamage_def orZero_def checkBattleEnd_def endTurn_def startTurn_def
  isValidPosition_def positionsEqual_def calculateDistance_def failure_def successState_def
  ok_def invalid_def Let_def

section \<open>Grid facts\<close>

lemma positionsEqual_iff: "positionsEqual a b \<longleftrightarrow> a = b"
  by (cases a; cases b) (simp add: positionsEqual_def)

lemma calculateDistance_zero_iff: "calculateDistance a b = 0 \<longleftrightarrow> a = b"
  by (cases a; cases b) (auto simp: calculateDistance_def)

lemma calculateDistance_nonneg: "0 \<le> calculateDistance a b"
  by (simp add: calculateDistance_def)

lemma single_step_iff:
  "\<not> positionsEqual a b \<and> \<not> calculateDistance a b > MAX_MOVE_DISTANCE_PER_ACTION
     \<longleftrightarrow> calculateDistance a b = 1"
  using calculateDistance_zero_iff [of a b] calculateDistance_nonneg [of a b]
  by (auto simp: positionsEqual_iff MAX_MOVE_DISTANCE_PER_ACTION_def)

section \<open>Turn ownership\<close>

text \<open>
  \<open>processAction\<close> admits an action on one condition: \<open>canAct\<close>. A player id that is neither \<open>player1Id\<close>
  nor \<open>player2Id\<close> has no team, so every action it submits is turned away, whatever
  the action.
\<close>

lemma not_turn_owner_rejected:
  "playerId \<noteq> player1Id gs \<Longrightarrow> playerId \<noteq> player2Id gs \<Longrightarrow>
   processAction los action playerId now gs = (failure (Some ''Not your turn''), gs)"
  by (simp add: processAction_def canAct_def getPlayerTeam_def)

text \<open>
  Claim C1 says that an END_TURN submitted by the system actor is accepted and ends the
  turn. The code rejects it: in the duel, the END_TURN that \<open>handleTurnTimeout\<close> submits
  as \<open>'SYSTEM'\<close> comes back with "Not your turn" and the battle is left as it was, still
  PLAYER1's turn.
\<close>

theorem system_END_TURN_rejected:
  "''SYSTEM'' \<noteq> player1Id duel \<and> ''SYSTEM'' \<noteq> player2Id duel \<and>
   processAction los END_TURN ''SYSTEM'' 1 duel = (failure (Some ''Not your turn''), duel) \<and>
   currentTurn (snd (processAction los END_TURN ''SYSTEM'' 1 duel)) = currentTurn duel"
  by (simp add: processAction_def canAct_def getPlayerTeam_def sample_defs)

text \<open>
  A MOVE of a character whose team is not the current one is rejected by the first check
  of \<open>canMove\<close> (or earlier, by \<open>canAct\<close>), and nothing is written to the battle.
\<close>

lemma off_turn_move_rejected:
  assumes "findCharacter cid gs = Some ci"
      and "team (characters gs ! ci) \<noteq> currentTurn gs"
  shows "\<not> success (fst (processAction los (MOVE cid from to) playerId now gs)) \<and>
         error (fst (processAction los (MOVE cid from to) playerId now gs)) \<noteq> None \<and>
         snd (processAction los (MOVE cid from to) playerId now gs) = gs"
  using assms
  by (simp add: processAction_def handleMove_def canMove_def failure_def invalid_def Let_def)

text \<open>
  Claim C2 says that an ATTACK whose attacker belongs to the team that is not on turn is
  rejected and leaves the battle unchanged. \<open>canAttack\<close> never looks at \<open>currentTurn\<close>:
  in the duel, on PLAYER1's turn, alice names the PLAYER2 warrior \<open>w2\<close> as attacker and
  her own \<open>w1\<close> as target; the attack is carried out and \<open>w1\<close> loses 15 hit points.
\<close>

theorem off_turn_attacker_accepted:
  "findCharacter ''w2'' duel = Some 1 \<and>
   team (characters duel ! 1) \<noteq> currentTurn duel \<and>
   success (fst (processAction los (ATTACK ''w2'' ''w1'') ''alice'' 1 duel)) \<and>
   currentHp (characters duel ! 0) = 100 \<and>
   currentHp (characters (snd (processAction los (ATTACK ''w2'' ''w1'') ''alice'' 1 duel)) ! 0) = 85"
  by (simp add: engine_defs sample_defs constant_defs)

section \<open>Movement\<close>

lemma initMovement_budget:
  "ci < length (characters gs) \<Longrightarrow>
   the (movementPointsLeft (characters (initMovement ci gs) ! ci)) =
     movementBudget (characters gs ! ci)"
  by (cases "movementPointsLeft (characters gs ! ci)")
     (simp_all add: initMovement_def movementBudget_def)

text \<open>
  Claim C3, as stated, fails: it lets a character go several cells away when a
  traversable path within its movement points exists. On the empty grid the lone warrior
  at (0,0) has the path (0,0), (1,0), (2,0) of two steps and five movement points, and
  every other condition of the claim holds, yet \<open>canMove\<close> answers "Can only move 1 cell
  at a time".
\<close>

theorem canMove_multi_cell_counterexample:
  "team (characters solo ! 0) = currentTurn solo \<and>
   isValidPosition \<lparr>x = 2, y = 0\<rparr> \<and>
   position (characters solo ! 0) \<noteq> \<lparr>x = 2, y = 0\<rparr> \<and>
   \<not> occupiedByOther (characters solo ! 0) \<lparr>x = 2, y = 0\<rparr> solo \<and>
   traversablePath (characters solo ! 0) \<lparr>x = 2, y = 0\<rparr> solo
     [\<lparr>x = 0, y = 0\<rparr>, \<lparr>x = 1, y = 0\<rparr>, \<lparr>x = 2, y = 0\<rparr>] \<and>
   steps [\<lparr>x = 0, y = 0\<rparr>, \<lparr>x = 1, y = 0\<rparr>, \<lparr>x = 2, y = 0\<rparr>]
     \<le> movementBudget (characters solo ! 0) \<and>
   \<not> valid (fst (canMove 0 \<lparr>x = 2, y = 0\<rparr> solo)) \<and>
   error_v (fst (canMove 0 \<lparr>x = 2, y = 0\<rparr> solo)) = Some ''Can only move 1 cell at a time''"
  by (simp add: engine_defs sample_defs constant_defs traversablePath_def steps_def
        movementBudget_def)

text \<open>
  A destination more than one cell away never passes: the bounds check and the
  occupancy check come before the distance check, so the message is theirs when they
  fail, and "Can only move 1 cell at a time" otherwise.
\<close>

lemma canMove_far_rejected:
  assumes "team (characters gs ! ci) = currentTurn gs"
      and "1 < calculateDistance (position (characters gs ! ci)) to"
  shows "fst (canMove ci to gs) =
           invalid (if \<not> isValidPosition to then ''Invalid position''
                    else if occupiedByOther (characters gs ! ci) to gs
                    then ''Cell is occupied by another character''
                    else ''Can only move 1 cell at a time'')"
proof -
  have ne: "\<not> positionsEqual (position (characters gs ! ci)) to"
    using assms(2) calculateDistance_zero_iff [of "position (characters gs ! ci)" to]
    by (auto simp: positionsEqual_iff)
  show ?thesis
    using assms ne
    by (simp add: canMove_def Let_def MAX_MOVE_DISTANCE_PER_ACTION_def)
qed

text \<open>
  Claim C3, amended, with \<open>MAX_MOVE_DISTANCE_PER_ACTION = 1\<close> as the compiled constants
  table declares it: for a character of the team on turn, \<open>canMove\<close> answers valid
  exactly when the destination is a valid cell, differs from the current position, is
  not occupied by another living character, is reached by the one-step path from the
  current position (the destination is an orthogonal neighbour), and that step does not
  exceed the character's remaining movement points, an undefined budget counting as the
  full one. A destination two or more cells away is never valid, however many movement
  points remain: it is rejected with "Invalid position" when it lies off the grid, with
  "Cell is occupied by another character" when another living character stands on it,
  and with "Can only move 1 cell at a time" otherwise.
\<close>

theorem canMove_single_step:
  assumes "ci < length (characters gs)"
      and "team (characters gs ! ci) = currentTurn gs"
  shows "(valid (fst (canMove ci to gs)) \<longleftrightarrow>
           isValidPosition to \<and>
           position (characters gs ! ci) \<noteq> to \<and>
           \<not> occupiedByOther (characters gs ! ci) to gs \<and>
           traversablePath (characters gs ! ci) to gs [position (characters gs ! ci), to] \<and>
           steps [position (characters gs ! ci), to] \<le> movementBudget (characters gs ! ci)) \<and>
         (1 < calculateDistance (position (characters gs ! ci)) to \<longrightarrow>
            \<not> valid (fst (canMove ci to gs)) \<and>
            error_v (fst (canMove ci to gs)) =
              Some (if \<not> isValidPosition to then ''Invalid position''
                    else if occupiedByOther (characters gs ! ci) to gs
                    then ''Cell is occupied by another character''
                    else ''Can only move 1 cell at a time''))"
proof -
  let ?c = "characters gs ! ci"
  have path: "traversablePath ?c to gs [position ?c, to] \<longleftrightarrow>
                calculateDistance (position ?c) to = 1 \<and> isValidPosition to \<and>
                \<not> occupiedByOther ?c to gs"
    by (simp add: traversablePath_def)
  have one: "calculateDistance (position ?c) to = 1 \<longleftrightarrow>
               \<not> positionsEqual (position ?c) to \<and>
               \<not> calculateDistance (position ?c) to > MAX_MOVE_DISTANCE_PER_ACTION"
    using single_step_iff [of "position ?c" to] by simp
  have budget: "the (movementPointsLeft (characters (initMovement ci gs) ! ci)) = movementBudget ?c"
    using assms(1) by (rule initMovement_budget)
  have st: "steps [position ?c, to] = 1"
    by (simp add: steps_def)
  have near: "valid (fst (canMove ci to gs)) \<longleftrightarrow>
           isValidPosition to \<and> position ?c \<noteq> to \<and> \<not> occupiedByOther ?c to gs \<and>
           traversablePath ?c to gs [position ?c, to] \<and>
           steps [position ?c, to] \<le> movementBudget ?c"
    unfolding path one st
    using assms(2) budget
    by (auto simp: canMove_def Let_def ok_def invalid_def positionsEqual_iff)
  have far: "1 < calculateDistance (position ?c) to \<longrightarrow>
            \<not> valid (fst (canMove ci to gs)) \<and>
            error_v (fst (canMove ci to gs)) =
              Some (if \<not> isValidPosition to then ''Invalid position''
                    else if occupiedByOther ?c to gs
                    then ''Cell is occupied by another character''
                    else ''Can only move 1 cell at a time'')"
    using canMove_far_rejected [OF assms(2), of to] by (simp add: invalid_def)
  from near far show ?thesis by (rule conjI)
qed

text \<open>
  On the empty grid the warrior at (0,0) may step to (1,0) and may not go to the
  diagonal neighbour (1,1); (2,0) is refused as too far, and (-2,0), which is as far but
  off the grid, as an invalid position.
\<close>

theorem canMove_single_step_witness:
  "0 < length (characters solo) \<and> team (characters solo ! 0) = currentTurn solo \<and>
   valid (fst (canMove 0 \<lparr>x = 1, y = 0\<rparr> solo)) \<and>
   \<not> valid (fst (canMove 0 \<lparr>x = 1, y = 1\<rparr> solo)) \<and>
   1 < calculateDistance (position (characters solo ! 0)) \<lparr>x = 2, y = 0\<rparr> \<and>
   error_v (fst (canMove 0 \<lparr>x = 2, y = 0\<rparr> solo)) = Some ''Can only move 1 cell at a time'' \<and>
   1 < calculateDistance (position (characters solo ! 0)) \<lparr>x = - 2, y = 0\<rparr> \<and>
   error_v (fst (canMove 0 \<lparr>x = - 2, y = 0\<rparr> solo)) = Some ''Invalid position''"
proof -
  have h1: "0 < length (characters solo)" by (simp add: sample_defs)
  have h2: "team (characters solo ! 0) = currentTurn solo" by (simp add: sample_defs)
  note rule = canMove_single_step [OF h1 h2]
  have near: "valid (fst (canMove 0 \<lparr>x = 1, y = 0\<rparr> solo))"
    unfolding rule [THEN conjunct1]
    by (simp add: sample_defs constant_defs traversablePath_def steps_def movementBudget_def
          isValidPosition_def occupiedByOther_def positionsEqual_def calculateDistance_def)
  have diag: "\<not> valid (fst (canMove 0 \<lparr>x = 1, y = 1\<rparr> solo))"
    unfolding rule [THEN conjunct1]
    by (simp add: sample_defs constant_defs traversablePath_def calculateDistance_def)
  have d1: "1 < calculateDistance (position (characters solo ! 0)) \<lparr>x = 2, y = 0\<rparr>"
    and d2: "1 < calculateDistance (position (characters solo ! 0)) \<lparr>x = - 2, y = 0\<rparr>"
    by (simp_all add: sample_defs calculateDistance_def)
  have far1: "error_v (fst (canMove 0 \<lparr>x = 2, y = 0\<rparr> solo)) = Some ''Can only move 1 cell at a time''"
    using rule [of "\<lparr>x = 2, y = 0\<rparr>", THEN conjunct2, rule_format, OF d1]
    by (simp add: sample_defs constant_defs isValidPosition_def occupiedByOther_def
          positionsEqual_def)
  have far2: "error_v (fst (canMove 0 \<lparr>x = - 2, y = 0\<rparr> solo)) = Some ''Invalid position''"
    using rule [of "\<lparr>x = - 2, y = 0\<rparr>", THEN conjunct2, rule_format, OF d2]
    by (simp add: isValidPosition_def)
  from h1 h2 near diag d1 far1 d2 far2 show ?thesis by simp
qed

section \<open>Combat\<close>

lemma calculateDamage_formula:
  "calculateDamage a t =
     max 1 (baseDamage a + weaponBonus a - (baseArmor t + armorBonusOf t))"
  by (simp add: calculateDamage_def weaponBonus_def armorBonusOf_def orZero_def Let_def
           split: option.splits)

lemma executeAttack_unfold:
  "executeAttack ai ti gs =
     (let cs = characters gs;
          dmg = calculateDamage (cs ! ai) (cs ! ti);
          hp = max 0 (currentHp (cs ! ti) - dmg);
          t2 = (cs ! ti)\<lparr>currentHp := hp, isAlive := (if hp = 0 then False else isAlive (cs ! ti))\<rparr>;
          cs1 = cs[ti := t2];
          cs2 = cs1[ai := (cs1 ! ai)\<lparr>hasAttacked := True\<rparr>]
      in (\<lparr>damage = dmg, killed = \<not> isAlive (cs2 ! ti)\<rparr>, gs\<lparr>characters := cs2\<rparr>))"
  by (simp add: executeAttack_def Let_def)

lemma executeAttack_fields:
  assumes "ai < length (characters gs)" and "ti < length (characters gs)"
  shows "damage (fst (executeAttack ai ti gs)) = calculateDamage (characters gs ! ai) (characters gs ! ti)"
    and "currentHp (characters (snd (executeAttack ai ti gs)) ! ti) =
           max 0 (currentHp (characters gs ! ti)
                  - calculateDamage (characters gs ! ai) (characters gs ! ti))"
    and "isAlive (characters (snd (executeAttack ai ti gs)) ! ti) =
           (if currentHp (characters (snd (executeAttack ai ti gs)) ! ti) = 0 then False
            else isAlive (characters gs ! ti))"
    and "hasAttacked (characters (snd (executeAttack ai ti gs)) ! ai)"
    and "killed (fst (executeAttack ai ti gs)) =
           (\<not> isAlive (characters (snd (executeAttack ai ti gs)) ! ti))"
proof -
  define d where "d = calculateDamage (characters gs ! ai) (characters gs ! ti)"
  define hp where "hp = max 0 (currentHp (characters gs ! ti) - d)"
  define t2 where "t2 = (characters gs ! ti)\<lparr>currentHp := hp,
                           isAlive := (if hp = 0 then False else isAlive (characters gs ! ti))\<rparr>"
  define cs1 where "cs1 = (characters gs)[ti := t2]"
  define cs2 where "cs2 = cs1[ai := (cs1 ! ai)\<lparr>hasAttacked := True\<rparr>]"
  have e: "executeAttack ai ti gs =
             (\<lparr>damage = d, killed = \<not> isAlive (cs2 ! ti)\<rparr>, gs\<lparr>characters := cs2\<rparr>)"
    unfolding executeAttack_unfold Let_def d_def hp_def t2_def cs1_def cs2_def ..
  have l1: "length cs1 = length (characters gs)" by (simp add: cs1_def)
  have c1: "cs1 ! ti = t2" using assms(2) by (simp add: cs1_def)
  have c2t: "currentHp (cs2 ! ti) = hp \<and>
             isAlive (cs2 ! ti) = (if hp = 0 then False else isAlive (characters gs ! ti))"
  proof (cases "ai = ti")
    case True
    then show ?thesis using assms l1 c1 by (simp add: cs2_def t2_def)
  next
    case False
    then show ?thesis using assms l1 c1 by (simp add: cs2_def t2_def)
  qed
  have c2a: "hasAttacked (cs2 ! ai)" using assms(1) l1 by (simp add: cs2_def)
  show "damage (fst (executeAttack ai ti gs)) = calculateDamage (characters gs ! ai) (characters gs ! ti)"
    by (simp add: e d_def)
  show "currentHp (characters (snd (executeAttack ai ti gs)) ! ti) =
           max 0 (currentHp (characters gs ! ti)
                  - calculateDamage (characters gs ! ai) (characters gs ! ti))"
    using c2t by (simp add: e hp_def d_def)
  show "isAlive (characters (snd (executeAttack ai ti gs)) ! ti) =
           (if currentHp (characters (snd (executeAttack ai ti gs)) ! ti) = 0 then False
            else isAlive (characters gs ! ti))"
    using c2t by (simp add: e)
  show "hasAttacked (characters (snd (executeAttack ai ti gs)) ! ai)"
    using c2a by (simp add: e)
  show "killed (fst (executeAttack ai ti gs)) =
           (\<not> isAlive (characters (snd (executeAttack ai ti gs)) ! ti))"
    by (simp add: e)
qed

text \<open>
  Claim C4: \<open>executeAttack\<close> deals \<open>max(1, baseDamage + weapon bonus - (baseArmor +
  armour bonus))\<close>, which is at least 1; the target's \<open>currentHp\<close> becomes the old value
  minus the damage, floored at 0; \<open>isAlive\<close> of the target is set to false exactly when
  the new \<open>currentHp\<close> is 0 and is left as it was otherwise; the attacker's
  \<open>hasAttacked\<close> is true afterwards; the result carries the damage and whether the target
  is dead. Attacker and target are any two references into the battle's characters.
\<close>

theorem executeAttack_effect:
  assumes "ai < length (characters gs)" and "ti < length (characters gs)"
  shows "(case executeAttack ai ti gs of (out, gs') \<Rightarrow>
           damage out = max 1 (baseDamage (characters gs ! ai) + weaponBonus (characters gs ! ai)
                               - (baseArmor (characters gs ! ti) + armorBonusOf (characters gs ! ti))) \<and>
           1 \<le> damage out \<and>
           currentHp (characters gs' ! ti) = max 0 (currentHp (characters gs ! ti) - damage out) \<and>
           isAlive (characters gs' ! ti) =
             (if currentHp (characters gs' ! ti) = 0 then False else isAlive (characters gs ! ti)) \<and>
           hasAttacked (characters gs' ! ai) \<and>
           killed out = (\<not> isAlive (characters gs' ! ti)))"
proof -
  obtain out gs' where e: "executeAttack ai ti gs = (out, gs')"
    by (cases "executeAttack ai ti gs")
  have d: "damage out = calculateDamage (characters gs ! ai) (characters gs ! ti)"
    using executeAttack_fields(1) [OF assms] e by simp
  have d1: "1 \<le> damage out"
    unfolding d calculateDamage_formula by simp
  have hp: "currentHp (characters gs' ! ti) = max 0 (currentHp (characters gs ! ti) - damage out)"
    using executeAttack_fields(2) [OF assms] e d by simp
  have al: "isAlive (characters gs' ! ti) =
             (if currentHp (characters gs' ! ti) = 0 then False else isAlive (characters gs ! ti))"
    using executeAttack_fields(3) [OF assms] e by simp
  have ha: "hasAttacked (characters gs' ! ai)"
    using executeAttack_fields(4) [OF assms] e by simp
  have k: "killed out = (\<not> isAlive (characters gs' ! ti))"
    using executeAttack_fields(5) [OF assms] e by simp
  from d [unfolded calculateDamage_formula] d1 hp al ha k
  show ?thesis unfolding e by blast
qed

text \<open>In the duel the PLAYER1 warrior hits for 20 - 5 = 15 and the target survives with 85.\<close>

theorem executeAttack_effect_witness:
  "0 < length (characters duel) \<and> 1 < length (characters duel) \<and>
   damage (fst (executeAttack 0 1 duel)) = 15 \<and>
   currentHp (characters (snd (executeAttack 0 1 duel)) ! 1) = 85 \<and>
   isAlive (characters (snd (executeAttack 0 1 duel)) ! 1) \<and>
   hasAttacked (characters (snd (executeAttack 0 1 duel)) ! 0) \<and>
   \<not> killed (fst (executeAttack 0 1 duel))"
proof -
  have h1: "0 < length (characters duel)" and h2: "1 < length (characters duel)"
    by (simp_all add: sample_defs)
  from executeAttack_effect [OF h1 h2] h1 h2
  show ?thesis
    by (simp add: split_def sample_defs weaponBonus_def armorBonusOf_def)
qed

subsection \<open>Dead characters\<close>

text \<open>
  A target brought to 0 hit points is marked dead by \<open>executeAttack\<close>, and \<open>canAttack\<close>
  rejects every attack on a dead target.
\<close>

lemma executeAttack_zero_hp_dead:
  assumes "ai < length (characters gs)" and "ti < length (characters gs)"
      and "currentHp (characters (snd (executeAttack ai ti gs)) ! ti) = 0"
  shows "\<not> isAlive (characters (snd (executeAttack ai ti gs)) ! ti)"
  using executeAttack_fields(3) [OF assms(1,2)] assms(3) by simp

lemma canAttack_dead_target:
  "\<not> isAlive target \<Longrightarrow> \<not> valid (canAttack los attacker target gs)"
  by (simp add: canAttack_def invalid_def)

lemma skirmishAfterKill_eval:
  "skirmishAfterKill =
     skirmish\<lparr>characters :=
        [(defaultWarrior ''w1'' PLAYER1 \<lparr>x = 3, y = 4\<rparr>)\<lparr>currentHp := 0, isAlive := False\<rparr>,
         defaultWarrior ''w3'' PLAYER1 \<lparr>x = 5, y = 5\<rparr>,
         (defaultWarrior ''w2'' PLAYER2 \<lparr>x = 2, y = 4\<rparr>)\<lparr>hasAttacked := True\<rparr>],
        updatedAt := 1\<rparr>"
  by (simp add: skirmishAfterKill_def engine_defs sample_defs constant_defs)

lemma skirmishNextTurn_eval:
  "skirmishNextTurn =
     skirmish\<lparr>characters :=
        [(defaultWarrior ''w1'' PLAYER1 \<lparr>x = 3, y = 4\<rparr>)\<lparr>currentHp := 0, isAlive := False\<rparr>,
         defaultWarrior ''w3'' PLAYER1 \<lparr>x = 5, y = 5\<rparr>,
         (defaultWarrior ''w2'' PLAYER2 \<lparr>x = 2, y = 4\<rparr>)\<lparr>hasAttacked := True\<rparr>],
        currentTurn := PLAYER1, turnNumber := 2, turnStartTime := Some 2, updatedAt := 2\<rparr>"
  by (simp add: skirmishNextTurn_def skirmishAfterKill_eval engine_defs sample_defs constant_defs)

text \<open>
  Claim C5 says that a character whose \<open>currentHp\<close> has been reduced to 0 cannot act.
  Neither \<open>canMove\<close> nor \<open>canAttack\<close> looks at \<open>isAlive\<close> of the acting character. In
  the skirmish, bob's warrior kills \<open>w1\<close> and bob ends his turn; on alice's turn the dead
  \<open>w1\<close> (0 hit points, not alive) is moved to (3,5) by a MOVE that succeeds, and an
  ATTACK with the dead \<open>w1\<close> as attacker succeeds and takes 15 hit points from \<open>w2\<close>.
\<close>

theorem dead_character_still_acts:
  "currentHp (characters skirmish ! 0) = 15 \<and>
   currentHp (characters skirmishNextTurn ! 0) = 0 \<and>
   \<not> isAlive (characters skirmishNextTurn ! 0) \<and>
   findCharacter ''w1'' skirmishNextTurn = Some 0 \<and>
   status skirmishNextTurn = active \<and>
   success (fst (processAction openField (MOVE ''w1'' \<lparr>x = 3, y = 4\<rparr> \<lparr>x = 3, y = 5\<rparr>)
                   ''alice'' 3 skirmishNextTurn)) \<and>
   position (characters (snd (processAction openField
                                (MOVE ''w1'' \<lparr>x = 3, y = 4\<rparr> \<lparr>x = 3, y = 5\<rparr>)
                                ''alice'' 3 skirmishNextTurn)) ! 0) = \<lparr>x = 3, y = 5\<rparr> \<and>
   success (fst (processAction openField (ATTACK ''w1'' ''w2'') ''alice'' 3 skirmishNextTurn)) \<and>
   currentHp (characters (snd (processAction openField (ATTACK ''w1'' ''w2'')
                                 ''alice'' 3 skirmishNextTurn)) ! 2) = 85"
  by (simp add: skirmishNextTurn_eval engine_defs sample_defs constant_defs)

subsection \<open>End of battle\<close>

text \<open>
  Claim C6, as stated, fails on a battle in which both teams have no living character:
  \<open>checkBattleEnd\<close> reports the end and declares \<open>player2Id\<close> the winner, a team
  without a living character.
\<close>

theorem checkBattleEnd_both_fallen_counterexample:
  "ended (checkBattleEnd bothFallen) \<and>
   winner_b (checkBattleEnd bothFallen) = Some (player2Id bothFallen) \<and>
   player2Id bothFallen \<noteq> player1Id bothFallen \<and>
   \<not> hasLiving PLAYER2 bothFallen"
  by (simp add: engine_defs sample_defs hasLiving_def)

text \<open>
  Claim C6, amended: \<open>checkBattleEnd\<close> returns ended = true exactly when at least one
  team has no living character; when PLAYER1 has none the declared winner is
  \<open>player2Id\<close> (also when PLAYER2 has none either), and when PLAYER1 has a living
  character and PLAYER2 has none the declared winner is \<open>player1Id\<close>. So whenever exactly
  one team has no living character, the winner is the player id of the team that still
  has one.
\<close>

theorem checkBattleEnd_rule:
  "(ended (checkBattleEnd gs) \<longleftrightarrow> \<not> hasLiving PLAYER1 gs \<or> \<not> hasLiving PLAYER2 gs) \<and>
   (\<not> hasLiving PLAYER1 gs \<longrightarrow> winner_b (checkBattleEnd gs) = Some (player2Id gs)) \<and>
   (hasLiving PLAYER1 gs \<and> \<not> hasLiving PLAYER2 gs \<longrightarrow>
      winner_b (checkBattleEnd gs) = Some (player1Id gs))"
  by (auto simp: checkBattleEnd_def hasLiving_def Let_def filter_empty_conv)

text \<open>
  A lone PLAYER1 warrior wins for alice; once the PLAYER1 warrior of the duel is dead,
  bob wins; the duel itself has not ended.
\<close>

theorem checkBattleEnd_rule_witness:
  "hasLiving PLAYER1 solo \<and> \<not> hasLiving PLAYER2 solo \<and>
   ended (checkBattleEnd solo) \<and> winner_b (checkBattleEnd solo) = Some ''alice'' \<and>
   \<not> hasLiving PLAYER1 duelAfterKill \<and>
   ended (checkBattleEnd duelAfterKill) \<and> winner_b (checkBattleEnd duelAfterKill) = Some ''bob'' \<and>
   \<not> ended (checkBattleEnd duel)"
proof -
  have a: "hasLiving PLAYER1 solo" "\<not> hasLiving PLAYER2 solo" "\<not> hasLiving PLAYER1 duelAfterKill"
          "hasLiving PLAYER1 duel" "hasLiving PLAYER2 duel"
    by (simp_all add: hasLiving_def sample_defs)
  have ids: "player1Id solo = ''alice''" "player2Id duelAfterKill = ''bob''"
    by (simp_all add: sample_defs)
  from checkBattleEnd_rule [of solo] checkBattleEnd_rule [of duelAfterKill]
       checkBattleEnd_rule [of duel] a ids
  show ?thesis by simp
qed

section \<open>Turns\<close>

text \<open>
  Claim C7: two \<open>endTurn\<close> calls bring \<open>currentTurn\<close> back to the original team and
  raise \<open>turnNumber\<close> by exactly one; one call hands the turn to the other team and
  raises \<open>turnNumber\<close> exactly when the team now on turn is PLAYER1.
\<close>

theorem endTurn_alternation:
  "currentTurn (endTurn n2 (endTurn n1 gs)) = currentTurn gs \<and>
   turnNumber (endTurn n2 (endTurn n1 gs)) = turnNumber gs + 1 \<and>
   currentTurn (endTurn n1 gs) = otherTeam (currentTurn gs) \<and>
   turnNumber (endTurn n1 gs) =
     (if currentTurn (endTurn n1 gs) = PLAYER1 then turnNumber gs + 1 else turnNumber gs)"
  by (cases "currentTurn gs") (simp_all add: endTurn_def startTurn_def otherTeam_def Let_def)

text \<open>The duel starts in turn 1 with PLAYER1; after two calls it is PLAYER1's turn 2.\<close>

theorem endTurn_alternation_witness:
  "currentTurn duel = PLAYER1 \<and> turnNumber duel = 1 \<and>
   currentTurn (endTurn 1 duel) = PLAYER2 \<and> turnNumber (endTurn 1 duel) = 1 \<and>
   currentTurn (endTurn 2 (endTurn 1 duel)) = PLAYER1 \<and>
   turnNumber (endTurn 2 (endTurn 1 duel)) = 2"
proof -
  have s: "currentTurn duel = PLAYER1" "turnNumber duel = 1"
    by (simp_all add: sample_defs)
  from endTurn_alternation [of 2 1 duel] s
  show ?thesis by (simp add: otherTeam_def)
qed

text \<open>
  Claim C8: after \<open>startTurn\<close> every living character of the team on turn has
  \<open>hasAttacked\<close> false and the full movement budget, and differs from before in these
  two fields only; every other character is unchanged; the team's movement points are
  the full budget and the start time of the turn is the clock value.
\<close>

theorem startTurn_resets:
  "length (characters (startTurn now gs)) = length (characters gs) \<and>
   currentTurn (startTurn now gs) = currentTurn gs \<and>
   (\<forall>c \<in> set (characters (startTurn now gs)).
      team c = currentTurn gs \<and> isAlive c \<longrightarrow>
        hasAttacked c = False \<and> movementPointsLeft c = Some MOVEMENT_POINTS_PER_TURN) \<and>
   (\<forall>i < length (characters gs).
      (team (characters gs ! i) = currentTurn gs \<and> isAlive (characters gs ! i) \<longrightarrow>
         characters (startTurn now gs) ! i =
           (characters gs ! i)\<lparr>hasAttacked := False,
                                movementPointsLeft := Some MOVEMENT_POINTS_PER_TURN\<rparr>) \<and>
      (\<not> (team (characters gs ! i) = currentTurn gs \<and> isAlive (characters gs ! i)) \<longrightarrow>
         characters (startTurn now gs) ! i = characters gs ! i)) \<and>
   movementPointsLeft_g (startTurn now gs) = MOVEMENT_POINTS_PER_TURN \<and>
   turnStartTime (startTurn now gs) = Some now"
  by (auto simp: startTurn_def Let_def)

text \<open>
  After bob's warrior has attacked in the skirmish, a new PLAYER2 turn gives it back its
  attack and its movement points and leaves both PLAYER1 warriors, the dead and the
  living one, as they were.
\<close>

theorem startTurn_resets_witness:
  "hasAttacked (characters skirmishAfterKill ! 2) \<and>
   \<not> hasAttacked (characters (startTurn 5 skirmishAfterKill) ! 2) \<and>
   movementPointsLeft (characters (startTurn 5 skirmishAfterKill) ! 2)
     = Some MOVEMENT_POINTS_PER_TURN \<and>
   characters (startTurn 5 skirmishAfterKill) ! 0 = characters skirmishAfterKill ! 0 \<and>
   characters (startTurn 5 skirmishAfterKill) ! 1 = characters skirmishAfterKill ! 1 \<and>
   turnStartTime (startTurn 5 skirmishAfterKill) = Some 5"
proof -
  have len: "length (characters skirmishAfterKill) = 3"
    by (simp add: skirmishAfterKill_eval)
  have c: "currentTurn skirmishAfterKill = PLAYER2"
          "team (characters skirmishAfterKill ! 0) = PLAYER1"
          "team (characters skirmishAfterKill ! 1) = PLAYER1"
          "team (characters skirmishAfterKill ! 2) = PLAYER2"
          "isAlive (characters skirmishAfterKill ! 2)"
          "hasAttacked (characters skirmishAfterKill ! 2)"
    by (simp_all add: skirmishAfterKill_eval sample_defs)
  from startTurn_resets [of 5 skirmishAfterKill]
  have r: "\<forall>i < 3.
      (team (characters skirmishAfterKill ! i) = PLAYER2 \<and> isAlive (characters skirmishAfterKill ! i) \<longrightarrow>
         characters (startTurn 5 skirmishAfterKill) ! i =
           (characters skirmishAfterKill ! i)\<lparr>hasAttacked := False,
                                movementPointsLeft := Some MOVEMENT_POINTS_PER_TURN\<rparr>) \<and>
      (\<not> (team (characters skirmishAfterKill ! i) = PLAYER2 \<and> isAlive (characters skirmishAfterKill ! i)) \<longrightarrow>
         characters (startTurn 5 skirmishAfterKill) ! i = characters skirmishAfterKill ! i)"
    and t: "turnStartTime (startTurn 5 skirmishAfterKill) = Some 5"
    unfolding len c(1) by blast+
  have r0: "characters (startTurn 5 skirmishAfterKill) ! 0 = characters skirmishAfterKill ! 0"
    using r [rule_format, of 0] c by simp
  have r1: "characters (startTurn 5 skirmishAfterKill) ! 1 = characters skirmishAfterKill ! 1"
    using r [rule_format, of 1] c by simp
  have r2: "characters (startTurn 5 skirmishAfterKill) ! 2 =
              (characters skirmishAfterKill ! 2)\<lparr>hasAttacked := False,
                                movementPointsLeft := Some MOVEMENT_POINTS_PER_TURN\<rparr>"
    using r [rule_format, of 2] c by simp
  show ?thesis using r0 r1 r2 t c(6) by simp
qed

section \<open>Battle timeout\<close>

lemma foldl_hp: "foldl (\<lambda>sum c. sum + currentHp c) a cs = a + sum_list (map currentHp cs)"
  by (induction cs arbitrary: a) simp_all

text \<open>
  Claim C9: \<open>determineWinnerByTime\<close> returns the team with strictly more living
  characters; with equal numbers, the team whose living characters have the strictly
  greater sum of \<open>currentHp\<close>; and PLAYER1 when that is equal too.
\<close>

theorem determineWinnerByTime_rule:
  "(livingCount PLAYER1 gs > livingCount PLAYER2 gs \<longrightarrow> determineWinnerByTime gs = PLAYER1) \<and>
   (livingCount PLAYER2 gs > livingCount PLAYER1 gs \<longrightarrow> determineWinnerByTime gs = PLAYER2) \<and>
   (livingCount PLAYER1 gs = livingCount PLAYER2 gs \<and> livingHp PLAYER1 gs > livingHp PLAYER2 gs
      \<longrightarrow> determineWinnerByTime gs = PLAYER1) \<and>
   (livingCount PLAYER1 gs = livingCount PLAYER2 gs \<and> livingHp PLAYER2 gs > livingHp PLAYER1 gs
      \<longrightarrow> determineWinnerByTime gs = PLAYER2) \<and>
   (livingCount PLAYER1 gs = livingCount PLAYER2 gs \<and> livingHp PLAYER1 gs = livingHp PLAYER2 gs
      \<longrightarrow> determineWinnerByTime gs = PLAYER1)"
  by (simp add: determineWinnerByTime_def livingCount_def livingHp_def living_def foldl_hp Let_def)

text \<open>
  The even duel goes to PLAYER1 on the tie-break, the duel with a wounded PLAYER1
  warrior to PLAYER2 on health, the skirmish to PLAYER1 and the duel with a dead PLAYER1
  warrior to PLAYER2 on numbers.
\<close>

theorem determineWinnerByTime_rule_witness:
  "determineWinnerByTime duel = PLAYER1 \<and>
   determineWinnerByTime woundedDuel = PLAYER2 \<and>
   determineWinnerByTime skirmish = PLAYER1 \<and>
   determineWinnerByTime duelAfterKill = PLAYER2"
proof -
  have n: "livingCount PLAYER1 duel = livingCount PLAYER2 duel"
          "livingCount PLAYER1 woundedDuel = livingCount PLAYER2 woundedDuel"
          "livingCount PLAYER1 skirmish > livingCount PLAYER2 skirmish"
          "livingCount PLAYER2 duelAfterKill > livingCount PLAYER1 duelAfterKill"
    by (simp_all add: livingCount_def living_def sample_defs)
  have h: "livingHp PLAYER1 duel = livingHp PLAYER2 duel"
          "livingHp PLAYER2 woundedDuel > livingHp PLAYER1 woundedDuel"
    by (simp_all add: livingHp_def living_def sample_defs)
  from determineWinnerByTime_rule [of duel] determineWinnerByTime_rule [of woundedDuel]
       determineWinnerByTime_rule [of skirmish] determineWinnerByTime_rule [of duelAfterKill] n h
  show ?thesis by simp
qed

section \<open>The auto-end-turn flag\<close>

lemma autoEndTurn_startTurn: "autoEndTurn (startTurn now gs) = autoEndTurn gs"
  by (simp add: startTurn_def Let_def)

lemma autoEndTurn_endTurn: "autoEndTurn (endTurn now gs) = autoEndTurn gs"
  by (simp add: endTurn_def Let_def autoEndTurn_startTurn)

lemma autoEndTurn_initMovement: "autoEndTurn (initMovement ci gs) = autoEndTurn gs"
  by (simp add: initMovement_def)

lemma autoEndTurn_canMove: "autoEndTurn (snd (canMove ci to gs)) = autoEndTurn gs"
  by (simp add: canMove_def Let_def autoEndTurn_initMovement)

lemma autoEndTurn_executeMove: "autoEndTurn gs \<Longrightarrow> autoEndTurn (executeMove ci to gs)"
  by (simp add: executeMove_def Let_def autoEndTurn_initMovement)

lemma autoEndTurn_executeAttack: "autoEndTurn (snd (executeAttack ai ti gs)) = autoEndTurn gs"
  by (simp add: executeAttack_def Let_def)

lemma autoEndTurn_handleEndTurn: "autoEndTurn (snd (handleEndTurn now gs)) = autoEndTurn gs"
  by (simp add: handleEndTurn_def Let_def autoEndTurn_endTurn)

lemma autoEndTurn_handleSurrender: "autoEndTurn (snd (handleSurrender p now gs)) = autoEndTurn gs"
  by (simp add: handleSurrender_def Let_def)

lemma autoEndTurn_handleMove:
  assumes "autoEndTurn gs" shows "autoEndTurn (snd (handleMove cid to now gs))"
proof (cases "findCharacter cid gs")
  case None
  then show ?thesis using assms by (simp add: handleMove_def)
next
  case (Some ci)
  obtain cm gs1 where cm: "canMove ci to gs = (cm, gs1)" by (cases "canMove ci to gs")
  have a1: "autoEndTurn gs1" using autoEndTurn_canMove [of ci to gs] cm assms by simp
  have a2: "autoEndTurn (executeMove ci to gs1)" using a1 by (rule autoEndTurn_executeMove)
  obtain r gs4 where he: "handleEndTurn now ((executeMove ci to gs1)\<lparr>updatedAt := now\<rparr>) = (r, gs4)"
    by (cases "handleEndTurn now ((executeMove ci to gs1)\<lparr>updatedAt := now\<rparr>)")
  have a4: "autoEndTurn gs4"
    using autoEndTurn_handleEndTurn [of now "(executeMove ci to gs1)\<lparr>updatedAt := now\<rparr>"] he a2
    by simp
  show ?thesis
    using Some cm a1 a2 he a4 by (simp add: handleMove_def Let_def)
qed

lemma autoEndTurn_handleAttack:
  assumes "autoEndTurn gs" shows "autoEndTurn (snd (handleAttack los aid tid now gs))"
proof (cases "findCharacter aid gs")
  case None
  then show ?thesis using assms by (simp add: handleAttack_def)
next
  case (Some ai)
  note sa = Some
  show ?thesis
  proof (cases "findCharacter tid gs")
    case None
    then show ?thesis using assms sa by (simp add: handleAttack_def)
  next
    case (Some ti)
    obtain out gs1 where ea: "executeAttack ai ti gs = (out, gs1)" by (cases "executeAttack ai ti gs")
    have a1: "autoEndTurn gs1" using autoEndTurn_executeAttack [of ai ti gs] ea assms by simp
    show ?thesis
      using sa Some ea a1 assms
      by (simp add: handleAttack_def Let_def handleEndTurn_def autoEndTurn_endTurn successState_def)
  qed
qed

text \<open>
  Claim C10: once \<open>autoEndTurn\<close> is true it stays true. No operation of the engine
  assigns false to it: \<open>startTurn\<close>, \<open>endTurn\<close>, \<open>autoEndTurnIfNeeded\<close>, \<open>canMove\<close>,
  \<open>executeMove\<close>, \<open>executeAttack\<close> and every action that \<open>processAction\<close> handles,
  the automatic end of turn included, preserve it.
\<close>

theorem autoEndTurn_never_reset:
  assumes "autoEndTurn gs"
  shows "autoEndTurn (startTurn now gs) \<and>
         autoEndTurn (endTurn now gs) \<and>
         autoEndTurn (autoEndTurnIfNeeded now gs) \<and>
         autoEndTurn (snd (canMove ci to gs)) \<and>
         autoEndTurn (executeMove ci to gs) \<and>
         autoEndTurn (snd (executeAttack ai ti gs)) \<and>
         autoEndTurn (snd (processAction los action playerId now gs))"
proof -
  have pa: "autoEndTurn (snd (processAction los action playerId now gs))"
    using assms
    by (cases action)
       (simp_all add: processAction_def autoEndTurn_handleMove autoEndTurn_handleAttack
          autoEndTurn_handleEndTurn autoEndTurn_handleSurrender)
  show ?thesis
    using assms pa
    by (simp add: autoEndTurn_startTurn autoEndTurn_endTurn autoEndTurnIfNeeded_def
          autoEndTurn_canMove autoEndTurn_executeMove autoEndTurn_executeAttack)
qed

lemma lastPointSpent_eval:
  "lastPointSpent =
     duel\<lparr>characters :=
        [(defaultWarrior ''w1'' PLAYER1 \<lparr>x = 3, y = 4\<rparr>)
           \<lparr>position := \<lparr>x = 3, y = 5\<rparr>, movementPointsLeft := Some (MOVEMENT_POINTS_PER_TURN - 1)\<rparr>,
         defaultWarrior ''w2'' PLAYER2 \<lparr>x = 2, y = 4\<rparr>],
        currentTurn := PLAYER2, turnStartTime := Some 1, updatedAt := 1, autoEndTurn := True\<rparr>"
  by (simp add: lastPointSpent_def engine_defs sample_defs constant_defs)

text \<open>
  Alice spends the last team movement point: \<open>executeMove\<close> raises the flag and the
  turn passes to PLAYER2. The flag is still raised in PLAYER2's turn, and after bob's
  first step as well.
\<close>

theorem autoEndTurn_never_reset_witness:
  "\<not> autoEndTurn lastPoint \<and>
   autoEndTurn lastPointSpent \<and> currentTurn lastPointSpent = PLAYER2 \<and>
   autoEndTurn (startTurn 2 lastPointSpent) \<and>
   autoEndTurn (endTurn 2 lastPointSpent) \<and>
   autoEndTurn (snd (processAction openField (MOVE ''w2'' \<lparr>x = 2, y = 4\<rparr> \<lparr>x = 2, y = 5\<rparr>)
                       ''bob'' 2 lastPointSpent))"
proof -
  have flag: "autoEndTurn lastPointSpent"
    by (simp add: lastPointSpent_eval)
  have start: "\<not> autoEndTurn lastPoint" "currentTurn lastPointSpent = PLAYER2"
    by (simp_all add: lastPointSpent_eval sample_defs)
  from autoEndTurn_never_reset [OF flag, of 2 0 "\<lparr>x = 2, y = 5\<rparr>" 0 0 openField
         "MOVE ''w2'' \<lparr>x = 2, y = 4\<rparr> \<lparr>x = 2, y = 5\<rparr>" "''bob''"]
  show ?thesis using flag start by simp
qed

end
